theory Spec2Isabelle
  imports Complex_Main "HOL-Library.Word" "HOL-Library.Multiset"
begin

section \<open>The ear dataset adapter and the colour splash of samples/ears/ears.py\<close>

text \<open>
  The script has three pieces of logic of its own: \<open>EarDataset.load_ear\<close>, which fills the
  dataset with one record per image file, \<open>EarDataset.load_mask\<close> and
  \<open>EarDataset.image_reference\<close>, which read a record back, and \<open>color_splash\<close>, which
  composes the visualisation. Exceptions are values of type \<open>error\<close>; the methods of the
  dataset take the dataset and return it with their result.
\<close>

subsection \<open>Exceptions\<close>

datatype error = AssertionError | ValueError | IndexError | IOError

subsection \<open>os.path (posixpath)\<close>

text \<open>\<open>str.rfind\<close> for a single character: the last index holding it, or \<open>-1\<close>.\<close>

fun rfind_aux :: "char \<Rightarrow> string \<Rightarrow> int \<Rightarrow> int \<Rightarrow> int" where
  "rfind_aux c [] i found = found"
| "rfind_aux c (x # xs) i found = rfind_aux c xs (i + 1) (if x = c then i else found)"

definition rfind :: "string \<Rightarrow> char \<Rightarrow> int" where
  "rfind p c = rfind_aux c p 0 (- 1)"

text \<open>
  \<open>os.path.join(a, b)\<close>: an absolute \<open>b\<close> replaces \<open>a\<close>; otherwise the two are put
  together with one separator, unless \<open>a\<close> is empty or already ends with one.
\<close>

definition join :: "string \<Rightarrow> string \<Rightarrow> string" where
  "join a b =
     (if take 1 b = ''/'' then b
      else if a = [] then a @ b
      else if last a = CHR ''/'' then a @ b
      else a @ ''/'' @ b)"

text \<open>
  \<open>os.path.splitext(p)\<close>: the extension starts at the last dot of the last path
  component, unless only dots come before it in that component. The \<open>while\<close> loop of
  \<open>genericpath._splitext\<close> looks for a character other than a dot between the component's
  start and the last dot.
\<close>

function splitext_scan :: "string \<Rightarrow> nat \<Rightarrow> nat \<Rightarrow> bool" where
  "splitext_scan p filenameIndex dotIndex =
     (if filenameIndex < dotIndex
      then (if p ! filenameIndex = CHR ''.''
            then splitext_scan p (filenameIndex + 1) dotIndex
            else True)
      else False)"
  by pat_completeness auto
termination
  by (relation "measure (\<lambda>(p, filenameIndex, dotIndex). dotIndex - filenameIndex)") auto

definition splitext :: "string \<Rightarrow> string \<times> string" where
  "splitext p =
     (let sepIndex = rfind p CHR ''/'';
          dotIndex = rfind p CHR ''.''
      in if sepIndex < dotIndex \<and> splitext_scan p (nat (sepIndex + 1)) (nat dotIndex)
         then (take (nat dotIndex) p, drop (nat dotIndex) p)
         else (p, []))"

text \<open>\<open>os.path.dirname(p)\<close>: everything up to the last separator, trailing separators
  stripped unless the head consists of separators only.\<close>

definition rstrip :: "char \<Rightarrow> string \<Rightarrow> string" where
  "rstrip c s = rev (dropWhile (\<lambda>x. x = c) (rev s))"

definition dirname :: "string \<Rightarrow> string" where
  "dirname p =
     (let i = nat (rfind p CHR ''/'' + 1);
          head = take i p
      in if head = [] then head
         else if head = replicate (length head) CHR ''/'' then head
         else rstrip CHR ''/'' head)"

subsection \<open>Arrays and the file system\<close>

text \<open>
  A numpy array is its shape and its elements in row-major order. The file system and the
  image decoder are outside the script: \<open>walk\<close> gives the triples \<open>os.walk\<close> yields for a
  directory, \<open>imread\<close> what \<open>skimage.io.imread\<close> decodes at a path (or the exception it
  raises), \<open>glob\<close> the paths \<open>glob.glob\<close> returns for a pattern.
\<close>

record 'a ndarray =
  shape :: "nat list"
  elems :: "'a list"

record env =
  walk :: "string \<Rightarrow> (string \<times> string list \<times> string list) list"
  imread :: "string \<Rightarrow> error + nat ndarray"
  glob :: "string \<Rightarrow> string list"

subsection \<open>The dataset\<close>

text \<open>
  One entry of \<open>self.image_info\<close>: the dictionary \<open>add_image\<close> stores, with the keys
  \<open>id\<close>, \<open>source\<close>, \<open>path\<close>, \<open>width\<close>, \<open>height\<close> and \<open>mask\<close>.
\<close>

record image_record =
  info_id :: string
  info_source :: string
  info_path :: string
  info_width :: nat
  info_height :: nat
  info_mask :: string

record dataset =
  class_info :: "(string \<times> nat \<times> string) list"
  image_info :: "image_record list"

type_synonym 'a dataset_op = "dataset \<Rightarrow> (error + 'a) \<times> dataset"

text \<open>
  Modelled from the spec: \<open>utils.Dataset.add_class\<close> belongs to the framework
  (mrcnn/utils.py), which is not part of the script. The spec has one foreground class
  with id 1; registering it is recorded in \<open>class_info\<close> and does not fail.
\<close>

definition add_class :: "string \<Rightarrow> nat \<Rightarrow> string \<Rightarrow> dataset \<Rightarrow> dataset" where
  "add_class source class_id class_name ds =
     ds\<lparr>class_info := class_info ds @ [(source, class_id, class_name)]\<rparr>"

text \<open>
  Modelled from the spec: \<open>utils.Dataset.add_image\<close> belongs to the framework
  (mrcnn/utils.py), which is not part of the script. The spec's Catalog is an ordered
  sequence of ImageRecord in insertion order: each call appends one record holding the
  values it was given.
\<close>

definition add_image ::
  "string \<Rightarrow> string \<Rightarrow> string \<Rightarrow> nat \<Rightarrow> nat \<Rightarrow> string \<Rightarrow> dataset \<Rightarrow> dataset" where
  "add_image source image_id path width height mask_path ds =
     ds\<lparr>image_info := image_info ds @
        [\<lparr>info_id = image_id, info_source = source, info_path = path,
          info_width = width, info_height = height, info_mask = mask_path\<rparr>]\<rparr>"

text \<open>\<open>self.image_info[image_id]\<close>: a Python list read, negative indices counted from
  the end, \<open>IndexError\<close> outside.\<close>

definition getitem :: "'a list \<Rightarrow> int \<Rightarrow> error + 'a" where
  "getitem xs i =
     (if 0 \<le> i \<and> i < int (length xs) then Inr (xs ! nat i)
      else if i < 0 \<and> - int (length xs) \<le> i then Inr (xs ! nat (int (length xs) + i))
      else Inl IndexError)"

subsection \<open>load_ear\<close>

text \<open>
  The second loop of \<open>load_ear\<close>: one \<open>imread\<close> and one \<open>add_image\<close> per file name.
  \<open>height, width = img.shape[:2]\<close> needs two dimensions and raises \<open>ValueError\<close> otherwise.
\<close>

fun load_images :: "env \<Rightarrow> string \<Rightarrow> string \<Rightarrow> string list \<Rightarrow> unit dataset_op" where
  "load_images e dataset_dir mask_dir [] ds = (Inr (), ds)"
| "load_images e dataset_dir mask_dir (filename # images) ds =
     (let image_path = join dataset_dir filename;
          mask_path = join mask_dir filename
      in case imread e image_path of
           Inl err \<Rightarrow> (Inl err, ds)
         | Inr img \<Rightarrow>
             (case shape img of
                height # width # rest \<Rightarrow>
                  load_images e dataset_dir mask_dir images
                    (add_image ''ear'' (fst (splitext filename)) image_path
                       width height mask_path ds)
              | _ \<Rightarrow> (Inl ValueError, ds)))"

text \<open>
  \<open>load_ear\<close>: the class is added before the \<open>assert\<close> on the subset; the first loop
  takes the file names of the first triple of \<open>os.walk\<close> and stops.
\<close>

definition load_ear :: "env \<Rightarrow> string \<Rightarrow> string \<Rightarrow> unit dataset_op" where
  "load_ear e dataset_dir subset_name ds =
     (let ds1 = add_class ''ear'' 1 ''ear'' ds
      in if subset_name \<in> set [''train'', ''test'']
         then (let annotation = subset_name @ ''annot'';
                   mask_dir = join dataset_dir annotation;
                   image_dir = join dataset_dir subset_name;
                   images = (case walk e image_dir of
                               [] \<Rightarrow> []
                             | (dirpath, dirnames, filenames) # later \<Rightarrow> filenames)
               in load_images e image_dir mask_dir images ds1)
         else (Inl AssertionError, ds1))"

subsection \<open>image_reference\<close>

text \<open>
  The function of the parent class is a parameter. In the \<open>else\<close> branch its result is
  computed and dropped: the function ends without a \<open>return\<close>, which is \<open>None\<close>.
\<close>

definition image_reference :: "(int \<Rightarrow> string dataset_op) \<Rightarrow> int \<Rightarrow> string option dataset_op" where
  "image_reference super_image_reference image_id ds =
     (case getitem (image_info ds) image_id of
        Inl err \<Rightarrow> (Inl err, ds)
      | Inr info \<Rightarrow>
          if info_source info = ''ear'' then (Inr (Some (info_path info)), ds)
          else (case super_image_reference image_id ds of
                  (Inl err, ds') \<Rightarrow> (Inl err, ds')
                | (Inr r, ds') \<Rightarrow> (Inr None, ds')))"

subsection \<open>load_mask\<close>

text \<open>\<open>.astype(np.bool)\<close>: every non-zero sample is \<open>True\<close>; the shape is kept.\<close>

definition astype_bool :: "nat ndarray \<Rightarrow> bool ndarray" where
  "astype_bool a = \<lparr>shape = shape a, elems = map (\<lambda>v. 0 < v) (elems a)\<rparr>"

text \<open>
  \<open>np.stack(arrays, axis=-1)\<close>: raises \<open>ValueError\<close> for an empty list ("need at least
  one array to stack") and for arrays of different shapes ("all input arrays must have the
  same shape"); otherwise the new last axis runs over the arrays.
\<close>

definition stack :: "'a ndarray list \<Rightarrow> error + 'a ndarray" where
  "stack arrays =
     (case arrays of
        [] \<Rightarrow> Inl ValueError
      | a # others \<Rightarrow>
          if list_all (\<lambda>b. shape b = shape a) others
          then Inr \<lparr>shape = shape a @ [length arrays],
                    elems = concat (transpose (map elems arrays))\<rparr>
          else Inl ValueError)"

text \<open>The loop over \<open>files\<close>: each file is read at \<open>os.path.join(parent, files[i])\<close>.\<close>

fun read_masks :: "env \<Rightarrow> string \<Rightarrow> string list \<Rightarrow> error + bool ndarray list" where
  "read_masks e parent [] = Inr []"
| "read_masks e parent (f # files) =
     (case imread e (join parent f) of
        Inl err \<Rightarrow> Inl err
      | Inr m \<Rightarrow>
          (case read_masks e parent files of
             Inl err \<Rightarrow> Inl err
           | Inr ms \<Rightarrow> Inr (astype_bool m # ms)))"

text \<open>
  \<open>load_mask\<close>: the function of the parent class is a parameter. The class ids are
  \<open>np.ones([mask.shape[-1]])\<close>. Nothing is assigned to \<open>self\<close>.
\<close>

definition load_mask ::
  "env \<Rightarrow> (int \<Rightarrow> (bool ndarray \<times> int list) dataset_op) \<Rightarrow> int \<Rightarrow>
     (bool ndarray \<times> int list) dataset_op" where
  "load_mask e super_load_mask image_id ds =
     (case getitem (image_info ds) image_id of
        Inl err \<Rightarrow> (Inl err, ds)
      | Inr info \<Rightarrow>
          if info_source info \<noteq> ''ear'' then super_load_mask image_id ds
          else (let mask_root = fst (splitext (info_mask info));
                    parent = dirname (info_mask info);
                    files = glob e (mask_root @ ''_?.*'')
                in case read_masks e parent files of
                     Inl err \<Rightarrow> (Inl err, ds)
                   | Inr masks \<Rightarrow>
                       (case stack masks of
                          Inl err \<Rightarrow> (Inl err, ds)
                        | Inr m \<Rightarrow> (Inr (m, replicate (last (shape m)) 1), ds))))"

subsection \<open>color_splash\<close>

text \<open>
  An image is an array of shape [height, width, 3] with \<open>uint8\<close> channels, as
  \<open>skimage.io.imread\<close> gives for an RGB file; a mask is a \<open>bool\<close> array of shape
  [height, width, instance count]. The two outer axes are lists of rows and of cells, with
  the declared sizes kept beside them (an array without rows still has a width). The
  \<open>float64\<close> values of numpy are modelled by real numbers: the arithmetic is exact.
\<close>

type_synonym uint8 = "8 word"

type_synonym 'a pixel = "'a \<times> 'a \<times> 'a"

record 'a grid =
  nrows :: nat
  ncols :: nat
  cells :: "'a list list"

record mask_stack =
  mask_rows :: nat
  mask_cols :: nat
  instances :: nat
  bits :: "bool list list list"

definition wf_grid :: "'a grid \<Rightarrow> bool" where
  "wf_grid g =
     (length (cells g) = nrows g \<and> list_all (\<lambda>row. length row = ncols g) (cells g))"

definition wf_mask :: "mask_stack \<Rightarrow> bool" where
  "wf_mask m =
     (length (bits m) = mask_rows m
      \<and> list_all (\<lambda>row. length row = mask_cols m
            \<and> list_all (\<lambda>cell. length cell = instances m) row) (bits m))"

definition map_grid :: "('a \<Rightarrow> 'b) \<Rightarrow> 'a grid \<Rightarrow> 'b grid" where
  "map_grid f g = \<lparr>nrows = nrows g, ncols = ncols g, cells = map (map f) (cells g)\<rparr>"

text \<open>
  \<open>skimage.color.rgb2gray\<close> on a \<open>uint8\<close> image: the channels are scaled to [0, 1]
  (\<open>img_as_float\<close> divides by 255) and weighted as the library documents,
  \<open>Y = 0.2125 R + 0.7154 G + 0.0721 B\<close>.
\<close>

definition img_as_float :: "uint8 \<Rightarrow> real" where
  "img_as_float v = real (unat v) / 255"

definition luminance :: "uint8 pixel \<Rightarrow> real" where
  "luminance p =
     (case p of (r, g, b) \<Rightarrow>
        0.2125 * img_as_float r + 0.7154 * img_as_float g + 0.0721 * img_as_float b)"

definition rgb2gray :: "uint8 pixel grid \<Rightarrow> real grid" where
  "rgb2gray img = map_grid luminance img"

text \<open>\<open>skimage.color.gray2rgb\<close>: the value is repeated on three channels.\<close>

definition gray2rgb :: "real grid \<Rightarrow> real pixel grid" where
  "gray2rgb img = map_grid (\<lambda>y. (y, y, y)) img"

text \<open>\<open>array * 255\<close>.\<close>

definition times_scalar :: "real pixel grid \<Rightarrow> real \<Rightarrow> real pixel grid" where
  "times_scalar a k = map_grid (\<lambda>(r, g, b). (r * k, g * k, b * k)) a"

text \<open>
  \<open>.astype(np.uint8)\<close> on a \<open>float64\<close>: the fraction is cut off (towards zero) and the
  integer is taken modulo 256.
\<close>

definition to_uint8 :: "real \<Rightarrow> uint8" where
  "to_uint8 x = word_of_int (if 0 \<le> x then \<lfloor>x\<rfloor> else \<lceil>x\<rceil>)"

definition astype_uint8 :: "real pixel grid \<Rightarrow> uint8 pixel grid" where
  "astype_uint8 a = map_grid (\<lambda>(r, g, b). (to_uint8 r, to_uint8 g, to_uint8 b)) a"

text \<open>The \<open>uint8\<close> image as \<open>np.where\<close> sees it beside a \<open>float64\<close> array.\<close>

definition promote :: "uint8 pixel grid \<Rightarrow> real pixel grid" where
  "promote img =
     map_grid (\<lambda>(r, g, b). (real (unat r), real (unat g), real (unat b))) img"

text \<open>
  \<open>np.sum(mask, -1, keepdims=True) >= 1\<close>: per cell, the number of instances that are
  set, compared with 1. The result has shape [height, width, 1].
\<close>

definition np_sum_last :: "mask_stack \<Rightarrow> int grid" where
  "np_sum_last m =
     \<lparr>nrows = mask_rows m, ncols = mask_cols m,
      cells = map (map (\<lambda>cell. sum_list (map of_bool cell))) (bits m)\<rparr>"

definition ge_one :: "int grid \<Rightarrow> bool grid" where
  "ge_one s = map_grid (\<lambda>n. 1 \<le> n) s"

text \<open>
  Broadcasting of numpy: two axes go together when they are equal or one of them is 1,
  and the axis of length 1 is repeated; anything else raises \<open>ValueError\<close>.
\<close>

definition broadcast_dim :: "nat \<Rightarrow> nat \<Rightarrow> error + nat" where
  "broadcast_dim a b =
     (if a = b then Inr a
      else if a = 1 then Inr b
      else if b = 1 then Inr a
      else Inl ValueError)"

definition stretch :: "nat \<Rightarrow> 'a list \<Rightarrow> 'a list" where
  "stretch n xs = (case xs of [x] \<Rightarrow> replicate n x | _ \<Rightarrow> xs)"

text \<open>
  \<open>np.where(cond, x, y)\<close> for \<open>cond\<close> of shape [h', w', 1] and \<open>x\<close>, \<open>y\<close> of one shape
  [h, w, 3]: the one channel of \<open>cond\<close> decides for the three channels of a pixel.
\<close>

definition np_where ::
  "bool grid \<Rightarrow> real pixel grid \<Rightarrow> real pixel grid \<Rightarrow> error + real pixel grid" where
  "np_where cond x y =
     (case broadcast_dim (nrows cond) (nrows x) of
        Inl err \<Rightarrow> Inl err
      | Inr h \<Rightarrow>
          (case broadcast_dim (ncols cond) (ncols x) of
             Inl err \<Rightarrow> Inl err
           | Inr w \<Rightarrow>
               Inr \<lparr>nrows = h, ncols = w,
                    cells =
                      map (\<lambda>(cs, xs, ys).
                             map (\<lambda>(c, px, py). if c then px else py)
                               (zip (stretch w cs) (zip (stretch w xs) (stretch w ys))))
                        (zip (stretch h (cells cond))
                           (zip (stretch h (cells x)) (stretch h (cells y))))\<rparr>))"

definition color_splash :: "uint8 pixel grid \<Rightarrow> mask_stack \<Rightarrow> error + uint8 pixel grid" where
  "color_splash img mask_arr =
     (let gray = times_scalar (gray2rgb (rgb2gray img)) 255
      in if 0 < instances mask_arr
         then (let collapsed = ge_one (np_sum_last mask_arr)
               in case np_where collapsed (promote img) gray of
                    Inl err \<Rightarrow> Inl err
                  | Inr splash \<Rightarrow> Inr (astype_uint8 splash))
         else Inr (astype_uint8 gray))"

text \<open>
  \<open>mask[:, :, order]\<close>: the instances of a mask taken in another order.
\<close>

definition reorder_instances :: "nat list \<Rightarrow> mask_stack \<Rightarrow> mask_stack" where
  "reorder_instances order m =
     \<lparr>mask_rows = mask_rows m, mask_cols = mask_cols m, instances = length order,
      bits = map (map (\<lambda>cell. map (\<lambda>i. cell ! i) order)) (bits m)\<rparr>"

text \<open>The logical OR of the instances, cell by cell.\<close>

definition mask_union :: "mask_stack \<Rightarrow> bool grid" where
  "mask_union m =
     \<lparr>nrows = mask_rows m, ncols = mask_cols m,
      cells = map (map (\<lambda>cell. foldr (\<or>) cell False)) (bits m)\<rparr>"

text \<open>The scenario of the spec: an all-red image of 2 by 2 and a mask of its top row.\<close>

definition red_image :: "uint8 pixel grid" where
  "red_image =
     \<lparr>nrows = 2, ncols = 2,
      cells = [[(255, 0, 0), (255, 0, 0)], [(255, 0, 0), (255, 0, 0)]]\<rparr>"

definition top_row_mask :: mask_stack where
  "top_row_mask =
     \<lparr>mask_rows = 2, mask_cols = 2, instances = 1,
      bits = [[[True], [True]], [[False], [False]]]\<rparr>"

text \<open>Masks for the red image: every pixel set, no instance at all, two instances.\<close>

definition full_mask :: mask_stack where
  "full_mask =
     \<lparr>mask_rows = 2, mask_cols = 2, instances = 1,
      bits = [[[True], [True]], [[True], [True]]]\<rparr>"


definition two_masks :: mask_stack where
  "two_masks =
     \<lparr>mask_rows = 2, mask_cols = 2, instances = 2,
      bits = [[[True, False], [False, False]], [[False, True], [False, False]]]\<rparr>"

subsection \<open>A small dataset directory\<close>

text \<open>
  The directory \<open>/data\<close> used in the examples. \<open>train\<close> holds \<open>a.png\<close>, \<open>b.png\<close> and
  \<open>d.png\<close>, \<open>test\<close> holds \<open>c.png\<close> and \<open>c.jpg\<close>; every
  image is 2 by 2 with three channels. \<open>a\<close> has one mask file, of 1 by 1; \<open>b\<close> has two,
  of 2 by 2 and 1 by 1; \<open>c\<close> has two, both 2 by 2; \<open>d\<close> has none.
\<close>

definition example_walk :: "string \<Rightarrow> (string \<times> string list \<times> string list) list" where
  "example_walk d =
     (if d = ''/data/train'' then [(d, [], [''a.png'', ''b.png'', ''d.png''])]
      else if d = ''/data/test'' then [(d, [], [''c.png'', ''c.jpg''])]
      else [])"

definition example_imread :: "string \<Rightarrow> error + nat ndarray" where
  "example_imread p =
     (if p \<in> set [''/data/train/a.png'', ''/data/train/b.png'', ''/data/train/d.png'',
                   ''/data/test/c.png'', ''/data/test/c.jpg'']
      then Inr \<lparr>shape = [2, 2, 3], elems = replicate 12 255\<rparr>
      else if p \<in> set [''/data/trainannot/a_0.png'', ''/data/trainannot/b_1.png'']
      then Inr \<lparr>shape = [1, 1], elems = [255]\<rparr>
      else if p = ''/data/trainannot/b_0.png''
      then Inr \<lparr>shape = [2, 2], elems = [255, 255, 0, 0]\<rparr>
      else if p = ''/data/testannot/c_0.png''
      then Inr \<lparr>shape = [2, 2], elems = [255, 255, 0, 0]\<rparr>
      else if p = ''/data/testannot/c_1.png''
      then Inr \<lparr>shape = [2, 2], elems = [0, 0, 0, 255]\<rparr>
      else Inl IOError)"

definition example_glob :: "string \<Rightarrow> string list" where
  "example_glob pat =
     (if pat = ''/data/trainannot/a_?.*'' then [''/data/trainannot/a_0.png'']
      else if pat = ''/data/trainannot/b_?.*''
      then [''/data/trainannot/b_0.png'', ''/data/trainannot/b_1.png'']
      else if pat = ''/data/testannot/c_?.*''
      then [''/data/testannot/c_0.png'', ''/data/testannot/c_1.png'']
      else [])"

definition example_env :: env where
  "example_env = \<lparr>walk = example_walk, imread = example_imread, glob = example_glob\<rparr>"

definition empty_dataset :: dataset where
  "empty_dataset = \<lparr>class_info = [], image_info = []\<rparr>"

text \<open>The records \<open>load_ear\<close> makes of \<open>/data/train\<close>, written out.\<close>

definition train_dataset :: dataset where
  "train_dataset =
     \<lparr>class_info = [(''ear'', 1, ''ear'')],
      image_info =
        [\<lparr>info_id = ''a'', info_source = ''ear'', info_path = ''/data/train/a.png'',
          info_width = 2, info_height = 2, info_mask = ''/data/trainannot/a.png''\<rparr>,
         \<lparr>info_id = ''b'', info_source = ''ear'', info_path = ''/data/train/b.png'',
          info_width = 2, info_height = 2, info_mask = ''/data/trainannot/b.png''\<rparr>,
         \<lparr>info_id = ''d'', info_source = ''ear'', info_path = ''/data/train/d.png'',
          info_width = 2, info_height = 2, info_mask = ''/data/trainannot/d.png''\<rparr>]\<rparr>"

text \<open>A dataset holding one record of another source.\<close>

definition other_dataset :: dataset where
  "other_dataset =
     \<lparr>class_info = [(''coco'', 1, ''person'')],
      image_info =
        [\<lparr>info_id = ''7'', info_source = ''coco'', info_path = ''/coco/7.jpg'',
          info_width = 4, info_height = 3, info_mask = ''/coco/7.png''\<rparr>]\<rparr>"

text \<open>A parent class whose \<open>image_reference\<close> returns a link.\<close>

definition example_super_image_reference :: "int \<Rightarrow> string dataset_op" where
  "example_super_image_reference image_id ds = (Inr ''http://cocodataset.org/#explore?id=7'', ds)"

section \<open>Properties\<close>

subsection \<open>Helper facts\<close>

lemma train_dataset_built:
  "load_ear example_env ''/data'' ''train'' empty_dataset = (Inr (), train_dataset)"
  by code_simp

lemma load_images_appends:
  assumes "\<forall>f \<in> set fs. \<exists>img h w rest. imread e (join d f) = Inr img \<and> shape img = h # w # rest"
  shows "\<exists>rs. load_images e d m fs ds = (Inr (), ds\<lparr>image_info := image_info ds @ rs\<rparr>)
           \<and> map info_id rs = map (\<lambda>f. fst (splitext f)) fs
           \<and> map info_path rs = map (join d) fs
           \<and> map info_mask rs = map (join m) fs
           \<and> list_all (\<lambda>r. \<exists>img rest. imread e (info_path r) = Inr img
                 \<and> shape img = info_height r # info_width r # rest) rs"
  using assms
proof (induction fs arbitrary: ds)
  case Nil
  show ?case by (rule exI [of _ "[]"]) simp
next
  case (Cons f fs)
  from Cons.prems obtain img h w rest
    where img: "imread e (join d f) = Inr img" "shape img = h # w # rest"
    by auto
  define r where "r = \<lparr>info_id = fst (splitext f), info_source = ''ear'', info_path = join d f,
    info_width = w, info_height = h, info_mask = join m f\<rparr>"
  define ds1 where "ds1 = add_image ''ear'' (fst (splitext f)) (join d f) w h (join m f) ds"
  have ds1: "ds1 = ds\<lparr>image_info := image_info ds @ [r]\<rparr>"
    by (simp add: ds1_def r_def add_image_def)
  have step: "load_images e d m (f # fs) ds = load_images e d m fs ds1"
    by (simp add: img ds1_def Let_def)
  from Cons.prems have "\<forall>f \<in> set fs. \<exists>img h w rest.
      imread e (join d f) = Inr img \<and> shape img = h # w # rest"
    by simp
  from Cons.IH [OF this, of ds1] obtain rs where rs:
    "load_images e d m fs ds1 = (Inr (), ds1\<lparr>image_info := image_info ds1 @ rs\<rparr>)"
    "map info_id rs = map (\<lambda>f. fst (splitext f)) fs"
    "map info_path rs = map (join d) fs"
    "map info_mask rs = map (join m) fs"
    "list_all (\<lambda>r. \<exists>img rest. imread e (info_path r) = Inr img
        \<and> shape img = info_height r # info_width r # rest) rs"
    by blast
  have "load_images e d m (f # fs) ds = (Inr (), ds\<lparr>image_info := image_info ds @ (r # rs)\<rparr>)"
    by (simp only: step rs(1)) (simp add: ds1)
  moreover have "map info_id (r # rs) = map (\<lambda>f. fst (splitext f)) (f # fs)"
    by (simp add: rs(2) r_def)
  moreover have "map info_path (r # rs) = map (join d) (f # fs)"
    by (simp add: rs(3) r_def)
  moreover have "map info_mask (r # rs) = map (join m) (f # fs)"
    by (simp add: rs(4) r_def)
  moreover have "list_all (\<lambda>r. \<exists>img rest. imread e (info_path r) = Inr img
        \<and> shape img = info_height r # info_width r # rest) (r # rs)"
    using rs(5) img by (simp add: r_def)
  ultimately show ?case by blast
qed

lemma stack_disagree:
  assumes "a \<in> set masks" "b \<in> set masks" "shape a \<noteq> shape b"
  shows "stack masks = Inl ValueError"
proof (cases masks)
  case Nil
  with assms show ?thesis by simp
next
  case (Cons c others)
  have "\<not> list_all (\<lambda>x. shape x = shape c) others"
  proof
    assume "list_all (\<lambda>x. shape x = shape c) others"
    then have "\<forall>x \<in> set masks. shape x = shape c"
      by (simp add: Cons list_all_iff)
    with assms show False by auto
  qed
  then show ?thesis by (simp add: stack_def Cons)
qed

subsection \<open>load_ear rejects an unknown subset\<close>

text \<open>
  C3: for every subset name other than "train" and "test", \<open>load_ear\<close> (build) fails
  with the assertion error of its \<open>assert\<close> (the spec's InvalidSubset), whatever the
  file system, the root directory and the dataset are.
\<close>

theorem load_ear_invalid_subset:
  "subset_name \<notin> {''train'', ''test''} \<Longrightarrow>
     fst (load_ear e dataset_dir subset_name ds) = Inl AssertionError"
  by (simp add: load_ear_def Let_def)

theorem load_ear_invalid_subset_witness:
  "''bogus'' \<notin> {''train'', ''test''} \<and>
   fst (load_ear example_env ''/data'' ''bogus'' empty_dataset) = Inl AssertionError"
  using load_ear_invalid_subset [of "''bogus''" example_env "''/data''" empty_dataset] by simp

subsection \<open>load_ear makes one record per file\<close>

text \<open>
  C8, as the code has it: when the first triple \<open>os.walk\<close> yields for the image directory
  lists N file names that all decode to arrays of at least two dimensions, \<open>load_ear\<close> on a
  dataset without records succeeds and leaves exactly N records, in the order of the
  listing; each id is the file name without its extension, each path and mask path is the
  file name joined to the image and the annotation directory, and height and width are the
  first two dimensions of the decoded image. The ids are pairwise distinct exactly when
  the file names without their extensions are: nothing in \<open>load_ear\<close> makes them so.
\<close>

theorem load_ear_records:
  assumes "subset_name \<in> {''train'', ''test''}"
    and "walk e (join dataset_dir subset_name) = (dirpath, dirnames, filenames) # later"
    and "\<forall>f \<in> set filenames. \<exists>img h w rest.
           imread e (join (join dataset_dir subset_name) f) = Inr img \<and> shape img = h # w # rest"
    and "image_info ds = []"
  shows "fst (load_ear e dataset_dir subset_name ds) = Inr ()
       \<and> length (image_info (snd (load_ear e dataset_dir subset_name ds))) = length filenames
       \<and> map info_id (image_info (snd (load_ear e dataset_dir subset_name ds)))
           = map (\<lambda>f. fst (splitext f)) filenames
       \<and> map info_path (image_info (snd (load_ear e dataset_dir subset_name ds)))
           = map (join (join dataset_dir subset_name)) filenames
       \<and> map info_mask (image_info (snd (load_ear e dataset_dir subset_name ds)))
           = map (join (join dataset_dir (subset_name @ ''annot''))) filenames
       \<and> list_all (\<lambda>r. \<exists>img rest. imread e (info_path r) = Inr img
             \<and> shape img = info_height r # info_width r # rest)
           (image_info (snd (load_ear e dataset_dir subset_name ds)))
       \<and> distinct (map info_id (image_info (snd (load_ear e dataset_dir subset_name ds))))
           = distinct (map (\<lambda>f. fst (splitext f)) filenames)"
proof -
  define ds1 where "ds1 = add_class ''ear'' 1 ''ear'' ds"
  define d where "d = join dataset_dir subset_name"
  define m where "m = join dataset_dir (subset_name @ ''annot'')"
  have run: "load_ear e dataset_dir subset_name ds = load_images e d m filenames ds1"
    using assms(1,2) by (auto simp add: load_ear_def Let_def ds1_def d_def m_def)
  have empty: "image_info ds1 = []"
    by (simp add: ds1_def add_class_def assms(4))
  from load_images_appends [of filenames e d m ds1] assms(3) obtain rs where rs:
    "load_images e d m filenames ds1 = (Inr (), ds1\<lparr>image_info := image_info ds1 @ rs\<rparr>)"
    "map info_id rs = map (\<lambda>f. fst (splitext f)) filenames"
    "map info_path rs = map (join d) filenames"
    "map info_mask rs = map (join m) filenames"
    "list_all (\<lambda>r. \<exists>img rest. imread e (info_path r) = Inr img
        \<and> shape img = info_height r # info_width r # rest) rs"
    unfolding d_def by blast
  have res: "load_ear e dataset_dir subset_name ds = (Inr (), ds1\<lparr>image_info := rs\<rparr>)"
    by (simp add: run rs(1) empty)
  have len: "length rs = length filenames"
    using rs(2) by (metis length_map)
  show ?thesis
    using rs(2-5) len by (simp add: res d_def m_def)
qed

theorem load_ear_records_witness:
  "''train'' \<in> {''train'', ''test''}
   \<and> walk example_env (join ''/data'' ''train'')
       = (''/data/train'', [], [''a.png'', ''b.png'', ''d.png'']) # []
   \<and> image_info empty_dataset = []
   \<and> fst (load_ear example_env ''/data'' ''train'' empty_dataset) = Inr ()
   \<and> length (image_info (snd (load_ear example_env ''/data'' ''train'' empty_dataset))) = 3
   \<and> map info_id (image_info (snd (load_ear example_env ''/data'' ''train'' empty_dataset)))
       = [''a'', ''b'', ''d'']
   \<and> distinct (map info_id
         (image_info (snd (load_ear example_env ''/data'' ''train'' empty_dataset))))"
proof -
  have h1: "''train'' \<in> {''train'', ''test''}" by simp
  have h2: "walk example_env (join ''/data'' ''train'')
      = (''/data/train'', [], [''a.png'', ''b.png'', ''d.png'']) # []"
    by (simp add: example_env_def example_walk_def join_def)
  have h3: "\<forall>f \<in> set [''a.png'', ''b.png'', ''d.png'']. \<exists>img h w rest.
      imread example_env (join (join ''/data'' ''train'') f) = Inr img \<and> shape img = h # w # rest"
    by (simp add: example_env_def example_imread_def join_def)
  have h4: "image_info empty_dataset = []" by (simp add: empty_dataset_def)
  have stems: "splitext ''a.png'' = (''a'', ''.png'')" "splitext ''b.png'' = (''b'', ''.png'')"
    "splitext ''d.png'' = (''d'', ''.png'')"
    by code_simp+
  from load_ear_records [OF h1 h2 h3 h4] show ?thesis
    using h1 h2 h4 by (simp add: stems)
qed

theorem load_ear_ids_counterexample:
  "fst (load_ear example_env ''/data'' ''test'' empty_dataset) = Inr ()
   \<and> map info_id (image_info (snd (load_ear example_env ''/data'' ''test'' empty_dataset)))
       = [''c'', ''c'']
   \<and> \<not> distinct (map info_id
         (image_info (snd (load_ear example_env ''/data'' ''test'' empty_dataset))))"
  by code_simp

subsection \<open>load_mask without mask files\<close>

text \<open>
  C1: the record of \<open>d.png\<close> has no matching mask file. \<open>load_mask\<close> reaches
  \<open>np.stack\<close> with an empty list and raises \<open>ValueError\<close>; it does not return an empty
  mask stack.
\<close>

theorem load_mask_no_files_raises:
  "glob example_env (fst (splitext (info_mask (image_info train_dataset ! 2))) @ ''_?.*'') = []
   \<and> load_mask example_env (\<lambda>i ds. (Inl IndexError, ds)) 2 train_dataset
       = (Inl ValueError, train_dataset)"
  by code_simp

subsection \<open>load_mask and the declared dimensions\<close>

text \<open>
  C2, as stated, fails: the record of \<open>a.png\<close> declares 2 by 2, its only mask file decodes
  to 1 by 1, and \<open>load_mask\<close> returns that mask with one class id.
\<close>

theorem load_mask_declared_shape_counterexample:
  "info_height (image_info train_dataset ! 0) = 2
   \<and> info_width (image_info train_dataset ! 0) = 2
   \<and> imread example_env ''/data/trainannot/a_0.png'' = Inr \<lparr>shape = [1, 1], elems = [255]\<rparr>
   \<and> load_mask example_env (\<lambda>i ds. (Inl IndexError, ds)) 0 train_dataset
       = (Inr (\<lparr>shape = [1, 1, 1], elems = [True]\<rparr>, [1]), train_dataset)"
  by code_simp

text \<open>
  C2, as the code has it: \<open>load_mask\<close> never reads the record's height and width. For a
  record of source "ear" whose mask files all decode, if two of the decoded masks disagree
  with each other in shape, \<open>load_mask\<close> fails with the \<open>ValueError\<close> of \<open>np.stack\<close>, and
  the dataset is the one it was called on.
\<close>

theorem load_mask_shapes_disagree:
  assumes "getitem (image_info ds) image_id = Inr info"
    and "info_source info = ''ear''"
    and "read_masks e (dirname (info_mask info))
           (glob e (fst (splitext (info_mask info)) @ ''_?.*'')) = Inr masks"
    and "a \<in> set masks" and "b \<in> set masks" and "shape a \<noteq> shape b"
  shows "load_mask e super_load_mask image_id ds = (Inl ValueError, ds)"
  using assms(1-3) stack_disagree [OF assms(4-6)]
  by (simp add: load_mask_def Let_def)

theorem load_mask_shapes_disagree_witness:
  "getitem (image_info train_dataset) 1 = Inr (image_info train_dataset ! 1)
   \<and> info_source (image_info train_dataset ! 1) = ''ear''
   \<and> read_masks example_env (dirname (info_mask (image_info train_dataset ! 1)))
         (glob example_env (fst (splitext (info_mask (image_info train_dataset ! 1))) @ ''_?.*''))
       = Inr [\<lparr>shape = [2, 2], elems = [True, True, False, False]\<rparr>,
              \<lparr>shape = [1, 1], elems = [True]\<rparr>]
   \<and> load_mask example_env (\<lambda>i ds. (Inl IndexError, ds)) 1 train_dataset
       = (Inl ValueError, train_dataset)"
proof -
  have h1: "getitem (image_info train_dataset) 1 = Inr (image_info train_dataset ! 1)"
    by code_simp
  have h2: "info_source (image_info train_dataset ! 1) = ''ear''"
    by code_simp
  have h3: "read_masks example_env (dirname (info_mask (image_info train_dataset ! 1)))
         (glob example_env (fst (splitext (info_mask (image_info train_dataset ! 1))) @ ''_?.*''))
       = Inr [\<lparr>shape = [2, 2], elems = [True, True, False, False]\<rparr>,
              \<lparr>shape = [1, 1], elems = [True]\<rparr>]"
    by code_simp
  have h4: "\<lparr>shape = [2, 2], elems = [True, True, False, False]\<rparr>
      \<in> set [\<lparr>shape = [2, 2], elems = [True, True, False, False]\<rparr>,
              \<lparr>shape = [1, 1], elems = [True]\<rparr>]"
    by simp
  have h5: "\<lparr>shape = [1, 1], elems = [True]\<rparr>
      \<in> set [\<lparr>shape = [2, 2], elems = [True, True, False, False]\<rparr>,
              \<lparr>shape = [1, 1], elems = [True]\<rparr>]"
    by simp
  have h6: "shape \<lparr>shape = [2, 2], elems = [True, True, False, False]\<rparr>
      \<noteq> shape \<lparr>shape = [1, 1], elems = [True]\<rparr>"
    by simp
  from load_mask_shapes_disagree [OF h1 h2 h3 h4 h5 h6] h1 h2 h3 show ?thesis
    by simp
qed

subsection \<open>load_mask: as many class ids as masks\<close>

text \<open>
  A record of source "ear" whose k mask files (k at least 1) decode to arrays of one shape:
  \<open>load_mask\<close> returns the stack of the k masks and k class ids, all 1.
\<close>

lemma read_masks_length:
  "read_masks e parent files = Inr masks \<Longrightarrow> length masks = length files"
  by (induction files arbitrary: masks) (auto split: sum.splits)

lemma load_mask_counts:
  assumes "getitem (image_info ds) image_id = Inr info"
    and "info_source info = ''ear''"
    and "read_masks e (dirname (info_mask info))
           (glob e (fst (splitext (info_mask info)) @ ''_?.*'')) = Inr (m # masks)"
    and "list_all (\<lambda>b. shape b = shape m) masks"
  shows "\<exists>stacked. load_mask e super_load_mask image_id ds
           = (Inr (stacked, replicate (length (glob e (fst (splitext (info_mask info)) @ ''_?.*''))) 1), ds)
         \<and> shape stacked
             = shape m @ [length (glob e (fst (splitext (info_mask info)) @ ''_?.*''))]"
  using assms read_masks_length [OF assms(3)]
  by (simp add: load_mask_def Let_def stack_def)

text \<open>
  C9: the record of \<open>c.png\<close> has two matching mask files and \<open>load_mask\<close> returns two
  masks and the class ids \<open>[1, 1]\<close>; the record of \<open>d.png\<close> has none (k = 0) and
  \<open>load_mask\<close> returns nothing, it raises \<open>ValueError\<close>.
\<close>

theorem load_mask_counts_at_two_and_zero:
  "length (glob example_env ''/data/testannot/c_?.*'') = 2
   \<and> fst (load_mask example_env (\<lambda>i ds. (Inl IndexError, ds)) 0
          (snd (load_ear example_env ''/data'' ''test'' empty_dataset)))
       = Inr (\<lparr>shape = [2, 2, 2],
               elems = [True, False, True, False, False, False, False, True]\<rparr>, [1, 1])
   \<and> length (glob example_env ''/data/trainannot/d_?.*'') = 0
   \<and> fst (load_mask example_env (\<lambda>i ds. (Inl IndexError, ds)) 2
          (snd (load_ear example_env ''/data'' ''train'' empty_dataset)))
       = Inl ValueError"
  by code_simp

subsection \<open>image_reference for a record of another source\<close>

text \<open>
  C10: for an image id whose record has a source other than "ear", \<open>image_reference\<close>
  returns \<open>None\<close> whenever the parent class's function returns: the value the parent
  returned is not passed on.
\<close>

theorem image_reference_other_source:
  assumes "getitem (image_info ds) image_id = Inr info"
    and "info_source info \<noteq> ''ear''"
    and "super_image_reference image_id ds = (Inr r, ds')"
  shows "fst (image_reference super_image_reference image_id ds) = Inr None"
  using assms by (simp add: image_reference_def)

theorem image_reference_other_source_witness:
  "getitem (image_info other_dataset) 0 = Inr (image_info other_dataset ! 0)
   \<and> info_source (image_info other_dataset ! 0) \<noteq> ''ear''
   \<and> example_super_image_reference 0 other_dataset
       = (Inr ''http://cocodataset.org/#explore?id=7'', other_dataset)
   \<and> fst (image_reference example_super_image_reference 0 other_dataset) = Inr None"
proof -
  have h1: "getitem (image_info other_dataset) 0 = Inr (image_info other_dataset ! 0)"
    by code_simp
  have h2: "info_source (image_info other_dataset ! 0) \<noteq> ''ear''"
    by code_simp
  have h3: "example_super_image_reference 0 other_dataset
      = (Inr ''http://cocodataset.org/#explore?id=7'', other_dataset)"
    by (simp add: example_super_image_reference_def)
  from image_reference_other_source
      [of other_dataset 0 "image_info other_dataset ! 0" example_super_image_reference, OF h1 h2 h3]
    h1 h2 h3
  show ?thesis
    by simp
qed

subsection \<open>Casts between uint8 and float64\<close>

lemma to_uint8_unat: "to_uint8 (real (unat v)) = v"
proof -
  have "(0::real) \<le> real (unat v)" by (rule of_nat_0_le_iff)
  then have "to_uint8 (real (unat v)) = word_of_int \<lfloor>real (unat v)\<rfloor>"
    by (simp only: to_uint8_def if_True)
  also have "\<dots> = word_of_int (int (unat v))" by (simp only: floor_of_nat)
  also have "\<dots> = v" by simp
  finally show ?thesis .
qed

lemma to_uint8_unsigned: "to_uint8 (unsigned v) = v"
  using to_uint8_unat [of v] by simp




subsection \<open>The gray value stays in the range of uint8\<close>



subsection \<open>Broadcasting and the sum over the instances\<close>

lemma stretch_same: "length xs = n \<Longrightarrow> stretch n xs = xs"
  by (auto simp: stretch_def split: list.splits)

lemma sum_of_bool_nonneg: "0 \<le> (sum_list (map of_bool cell) :: int)"
  by (induction cell) auto

lemma sum_ge_one_is_or: "(1 \<le> (sum_list (map of_bool cell) :: int)) = foldr (\<or>) cell False"
  using sum_of_bool_nonneg by (induction cell) (auto simp: add_increasing)

lemma sum_reorder:
  assumes "mset order = mset [0..<length cell]"
  shows "(sum_list (map of_bool (map (\<lambda>i. cell ! i) order)) :: int) = sum_list (map of_bool cell)"
proof -
  have "mset (map (\<lambda>i. cell ! i) order) = image_mset (\<lambda>i. cell ! i) (mset [0..<length cell])"
    using assms by (metis mset_map)
  also have "\<dots> = mset (map (\<lambda>i. cell ! i) [0..<length cell])" by simp
  also have "\<dots> = mset cell" by (simp only: map_nth)
  finally have "mset (map of_bool (map (\<lambda>i. cell ! i) order) :: int list) = mset (map of_bool cell)"
    by (metis mset_map)
  then show ?thesis by (metis sum_mset_sum_list)
qed

lemma select_all_true:
  assumes "length cs = length xs" "length ys = length xs" "list_all (\<lambda>c. c) cs"
  shows "map (\<lambda>(c, px, py). if c then px else py) (zip cs (zip xs ys)) = xs"
  using assms by (auto simp: list_all_length intro!: nth_equalityI)


lemma sum_ge_one_at:
  assumes "i < length cell" "cell ! i"
  shows "1 \<le> (sum_list (map of_bool cell) :: int)"
proof -
  have "True \<in> set cell" using assms by (metis nth_mem)
  then have "foldr (\<or>) cell False" by (induction cell) auto
  then show ?thesis by (simp only: sum_ge_one_is_or)
qed

lemma collapse_is_union: "ge_one (np_sum_last m) = mask_union m"
  by (simp add: ge_one_def np_sum_last_def mask_union_def map_grid_def sum_ge_one_is_or)

lemma color_splash_by_union:
  assumes "0 < instances m"
  shows "color_splash img m =
     (case np_where (mask_union m) (promote img) (times_scalar (gray2rgb (rgb2gray img)) 255) of
        Inl err \<Rightarrow> Inl err
      | Inr splash \<Rightarrow> Inr (astype_uint8 splash))"
  using assms by (simp add: color_splash_def Let_def collapse_is_union)

lemma union_reorder:
  assumes "wf_mask m" "mset order = mset [0..<instances m]"
  shows "mask_union (reorder_instances order m) = mask_union m"
proof -
  have cell: "foldr (\<or>) (map (\<lambda>i. cell ! i) order) False = foldr (\<or>) cell False"
    if "length cell = instances m" for cell
  proof -
    have "mset order = mset [0..<length cell]" using assms(2) that by simp
    from sum_reorder [OF this] show ?thesis
      by (simp only: sum_ge_one_is_or [symmetric])
  qed
  have "map (map (\<lambda>cell. foldr (\<or>) (map (\<lambda>i. cell ! i) order) False)) (bits m)
      = map (map (\<lambda>cell. foldr (\<or>) cell False)) (bits m)"
    using assms(1) by (auto simp: wf_mask_def list_all_iff cell)
  then show ?thesis
    by (simp add: mask_union_def reorder_instances_def comp_def)
qed

subsection \<open>color_splash sees only the union of the instances\<close>

text \<open>
  C5: for a well-formed mask with at least one instance, the collapse of the code
  (\<open>np.sum\<close> over the instances, compared with 1) is the logical OR of the instances, cell
  by cell; the output of \<open>color_splash\<close> is a function of the image and of that union alone;
  and taking the instances in another order (any permutation \<open>order\<close> of their indices)
  gives the identical output, an error included.
\<close>

theorem color_splash_union_only:
  assumes "wf_mask m" and "0 < instances m" and "mset order = mset [0..<instances m]"
  shows "ge_one (np_sum_last m) = mask_union m
       \<and> color_splash img m =
           (case np_where (mask_union m) (promote img)
                   (times_scalar (gray2rgb (rgb2gray img)) 255) of
              Inl err \<Rightarrow> Inl err
            | Inr splash \<Rightarrow> Inr (astype_uint8 splash))
       \<and> color_splash img (reorder_instances order m) = color_splash img m"
proof -
  have "length order = instances m"
    using assms(3) by (metis length_upt diff_zero size_mset)
  then have "0 < instances (reorder_instances order m)"
    using assms(2) by (simp add: reorder_instances_def)
  from color_splash_by_union [OF this] color_splash_by_union [OF assms(2)]
    union_reorder [OF assms(1,3)] collapse_is_union
  show ?thesis by simp
qed

theorem color_splash_union_only_witness:
  "wf_mask two_masks \<and> 0 < instances two_masks
   \<and> mset [1, 0] = mset [0..<instances two_masks]
   \<and> ge_one (np_sum_last two_masks) = mask_union two_masks
   \<and> color_splash red_image (reorder_instances [1, 0] two_masks)
       = color_splash red_image two_masks"
proof -
  have h1: "wf_mask two_masks" by (simp add: wf_mask_def two_masks_def)
  have h2: "0 < instances two_masks" by (simp add: two_masks_def)
  have h3: "mset [1, 0] = mset [0..<instances two_masks]"
    by (simp add: two_masks_def upt_rec add_mset_commute numeral_2_eq_2)
  from color_splash_union_only [OF h1 h2 h3, of red_image] h1 h2 h3 show ?thesis
    by simp
qed

subsection \<open>color_splash without instances\<close>



subsection \<open>color_splash with an instance that covers the image\<close>

text \<open>
  C7: for every well-formed image of three uint8 channels and every well-formed mask of
  the image's height and width in which one instance \<open>i\<close> is set at every pixel,
  \<open>color_splash\<close> returns the image itself.
\<close>

theorem color_splash_all_true:
  assumes "wf_grid img" and "wf_mask m"
    and "mask_rows m = nrows img" and "mask_cols m = ncols img"
    and "i < instances m"
    and "list_all (list_all (\<lambda>cell. cell ! i)) (bits m)"
  shows "color_splash img m = Inr img"
proof -
  define gray where "gray = times_scalar (gray2rgb (rgb2gray img)) 255"
  define cond where "cond = ge_one (np_sum_last m)"
  have pos: "0 < instances m" using assms(5) by simp
  have dims: "nrows cond = nrows img" "ncols cond = ncols img"
    "nrows (promote img) = nrows img" "ncols (promote img) = ncols img"
    by (simp_all add: cond_def ge_one_def np_sum_last_def map_grid_def promote_def assms(3,4))
  have len: "length (cells cond) = nrows img" "length (cells (promote img)) = nrows img"
    "length (cells gray) = nrows img"
    using assms(1,2,3)
    by (simp_all add: cond_def ge_one_def np_sum_last_def map_grid_def promote_def gray_def
        times_scalar_def gray2rgb_def rgb2gray_def wf_grid_def wf_mask_def)
  have row_len: "length (cells cond ! y) = ncols img"
    "length (cells (promote img) ! y) = ncols img" "length (cells gray ! y) = ncols img"
    if "y < nrows img" for y
    using assms(1,2,3,4) that
    by (simp_all add: cond_def ge_one_def np_sum_last_def map_grid_def promote_def gray_def
        times_scalar_def gray2rgb_def rgb2gray_def wf_grid_def wf_mask_def list_all_length)
  have row_true: "list_all (\<lambda>c. c) (cells cond ! y)" if "y < nrows img" for y
  proof -
    have "\<forall>x < length (bits m ! y). 1 \<le> (sum_list (map of_bool (bits m ! y ! x)) :: int)"
      using assms(2,3,5,6) that
      by (auto simp: wf_mask_def list_all_length intro!: sum_ge_one_at [of i])
    then show ?thesis
      using assms(2,3) that
      by (simp add: cond_def ge_one_def np_sum_last_def map_grid_def wf_mask_def list_all_length)
  qed
  have "map (\<lambda>(cs, xs, ys).
            map (\<lambda>(c, px, py). if c then px else py)
              (zip (stretch (ncols img) cs)
                 (zip (stretch (ncols img) xs) (stretch (ncols img) ys))))
          (zip (stretch (nrows img) (cells cond))
             (zip (stretch (nrows img) (cells (promote img))) (stretch (nrows img) (cells gray))))
      = cells (promote img)"
    by (rule nth_equalityI)
      (simp_all add: len stretch_same row_len select_all_true row_true)
  then have "np_where cond (promote img) gray = Inr (promote img)"
    by (simp add: np_where_def broadcast_dim_def dims promote_def map_grid_def)
  moreover have "astype_uint8 (promote img) = img"
    by (cases img)
      (simp add: astype_uint8_def promote_def map_grid_def comp_def case_prod_unfold
        to_uint8_unsigned)
  ultimately show ?thesis
    using pos by (simp add: color_splash_def Let_def cond_def gray_def)
qed

theorem color_splash_all_true_witness:
  "wf_grid red_image \<and> wf_mask full_mask
   \<and> mask_rows full_mask = nrows red_image \<and> mask_cols full_mask = ncols red_image
   \<and> 0 < instances full_mask
   \<and> list_all (list_all (\<lambda>cell. cell ! 0)) (bits full_mask)
   \<and> color_splash red_image full_mask = Inr red_image"
proof -
  have h1: "wf_grid red_image" by (simp add: wf_grid_def red_image_def)
  have h2: "wf_mask full_mask" by (simp add: wf_mask_def full_mask_def)
  have h3: "mask_rows full_mask = nrows red_image" by (simp add: full_mask_def red_image_def)
  have h4: "mask_cols full_mask = ncols red_image" by (simp add: full_mask_def red_image_def)
  have h5: "0 < instances full_mask" by (simp add: full_mask_def)
  have h6: "list_all (list_all (\<lambda>cell. cell ! 0)) (bits full_mask)" by (simp add: full_mask_def)
  from color_splash_all_true [OF h1 h2 h3 h4 h5 h6] h1 h2 h3 h4 h5 h6 show ?thesis
    by simp
qed

subsection \<open>The all-red scenario\<close>

text \<open>
  C4, as the code has it: on the all-red image of 2 by 2 with the mask of the top row,
  \<open>color_splash\<close> keeps the top row (255, 0, 0) and turns the bottom row into
  (54, 54, 54): \<open>rgb2gray\<close> weighs red with 0.2125, and 0.2125 * 255 = 54.1875 is cut to 54.
\<close>

theorem color_splash_red_scenario:
  "color_splash red_image top_row_mask =
     Inr \<lparr>nrows = 2, ncols = 2,
          cells = [[(255, 0, 0), (255, 0, 0)], [(54, 54, 54), (54, 54, 54)]]\<rparr>"
  by code_simp

text \<open>
  C4, as stated, fails: the bottom row is not (76, 76, 76); its channels are 22 below.
\<close>

theorem color_splash_red_counterexample:
  "color_splash red_image top_row_mask \<noteq>
     Inr \<lparr>nrows = 2, ncols = 2,
          cells = [[(255, 0, 0), (255, 0, 0)], [(76, 76, 76), (76, 76, 76)]]\<rparr>
   \<and> unat (fst (cells (projr (color_splash red_image top_row_mask)) ! 1 ! 0)) + 22 = 76"
  by code_simp

end
